theory Spec2Isabelle
  imports Main "HOL-Library.Word" "HOL-Library.Signed_Division"
begin

unbundle bit_operations_syntax

section \<open>Platform types of the emulated (Win32) backend\<close>

text \<open>
  The development embeds the \<^verbatim>\<open>#ifdef _WIN32\<close> branches of \<^verbatim>\<open>src/src/xpthread.c\<close>.
  On that platform \<^verbatim>\<open>DWORD\<close> and \<^verbatim>\<open>unsigned\<close> are unsigned 32-bit, \<^verbatim>\<open>long\<close> and \<^verbatim>\<open>LONG\<close> are
  signed 32-bit, \<^verbatim>\<open>time_t\<close>, \<^verbatim>\<open>int64_t\<close> are signed 64-bit, \<^verbatim>\<open>uint64_t\<close> and \<^verbatim>\<open>size_t\<close>
  (as well as a data pointer) are 64-bit. Words carry no sign; signed reads go through
  \<open>sint\<close>, signed comparison is \<open><s\<close> and \<open>\<le>s\<close>, and the one signed division is written out
  in \<open>long_div\<close>. Arithmetic wraps around. Status codes and cancellation states are C
  \<^verbatim>\<open>int\<close>s that are only stored and compared, so they are modelled as \<open>int\<close>.
\<close>

type_synonym DWORD = "32 word"
type_synonym long = "32 word"
type_synonym time_t = "64 word"
type_synonym ptr = "64 word"

text \<open>
  The error numbers come from \<^verbatim>\<open><errno.h>\<close> of the Windows C runtime, which is not part of
  the repository; the values below are the ones that header gives. The proofs use no more
  of them than that they are positive.
\<close>

definition EAGAIN :: int where "EAGAIN = 11"
definition ENOMEM :: int where "ENOMEM = 12"
definition EBUSY :: int where "EBUSY = 16"
definition EINVAL :: int where "EINVAL = 22"
definition ENOSYS :: int where "ENOSYS = 40"
definition ENOTSUP :: int where "ENOTSUP = 129"
definition ETIMEDOUT :: int where "ETIMEDOUT = 138"

text \<open>\<^verbatim>\<open>INFINITE\<close> of \<^verbatim>\<open><windows.h>\<close> is \<^verbatim>\<open>0xFFFFFFFF\<close>.\<close>

definition INFINITE :: DWORD where "INFINITE = 0xFFFFFFFF"

record timespec =
  tv_sec :: time_t
  tv_nsec :: long

record FILETIME =
  dwLowDateTime :: DWORD
  dwHighDateTime :: DWORD

section \<open>Time source\<close>

text \<open>
  \<^verbatim>\<open>xpthread_get_realtime\<close>: the argument is what \<^verbatim>\<open>GetSystemTimeAsFileTime\<close> stored, a count
  of 100-nanosecond ticks split in two halves. \<^verbatim>\<open>uli.QuadPart\<close> glues the halves; the
  subtraction, division and remainder are on \<^verbatim>\<open>uint64_t\<close>; the stores convert to \<^verbatim>\<open>time_t\<close>
  and to \<^verbatim>\<open>long\<close>.
\<close>

definition QuadPart :: "FILETIME \<Rightarrow> 64 word" where
  "QuadPart ft = push_bit 32 (ucast (dwHighDateTime ft)) OR ucast (dwLowDateTime ft)"

definition xpthread_get_realtime :: "FILETIME \<Rightarrow> timespec" where
  "xpthread_get_realtime ft =
     (let t = QuadPart ft - 116444736000000000
      in \<lparr>tv_sec = t div 10000000, tv_nsec = ucast ((t mod 10000000) * 100)\<rparr>)"

section \<open>Mutex primitive\<close>

text \<open>
  \<^verbatim>\<open>xpthread_mutex_t\<close> is a \<^verbatim>\<open>CRITICAL_SECTION\<close>. Of that object the model keeps what decides
  the result of the calls made by \<^verbatim>\<open>xpthread.c\<close>: the owning thread (if any) and the
  recursion count (a critical section may be re-entered by its owner). Threads are named by
  natural numbers.
\<close>

record CRITICAL_SECTION =
  OwningThread :: "nat option"
  RecursionCount :: nat

definition TryEnterCriticalSection :: "nat \<Rightarrow> CRITICAL_SECTION \<Rightarrow> bool \<times> CRITICAL_SECTION" where
  "TryEnterCriticalSection self cs =
     (case OwningThread cs of
        None \<Rightarrow> (True, cs\<lparr>OwningThread := Some self, RecursionCount := 1\<rparr>)
      | Some t \<Rightarrow>
          if t = self then (True, cs\<lparr>RecursionCount := RecursionCount cs + 1\<rparr>)
          else (False, cs))"

text \<open>\<^verbatim>\<open>EnterCriticalSection\<close> does not return while another thread owns the object: \<open>None\<close>.\<close>

definition EnterCriticalSection :: "nat \<Rightarrow> CRITICAL_SECTION \<Rightarrow> CRITICAL_SECTION option" where
  "EnterCriticalSection self cs =
     (case TryEnterCriticalSection self cs of (ok, cs') \<Rightarrow> if ok then Some cs' else None)"

text \<open>Leaving a critical section one does not own is undefined; the model leaves it alone.\<close>

definition LeaveCriticalSection :: "nat \<Rightarrow> CRITICAL_SECTION \<Rightarrow> CRITICAL_SECTION" where
  "LeaveCriticalSection self cs =
     (if OwningThread cs = Some self then
        (if RecursionCount cs \<le> 1 then cs\<lparr>OwningThread := None, RecursionCount := 0\<rparr>
         else cs\<lparr>RecursionCount := RecursionCount cs - 1\<rparr>)
      else cs)"

text \<open>
  \<^verbatim>\<open>xpthread_mutex_init\<close>, the \<^verbatim>\<open>_WIN32_WINNT >= 0x0403\<close> branch: the first argument is whether
  \<^verbatim>\<open>InitializeCriticalSectionAndSpinCount\<close> succeeded. (The other branch calls
  \<^verbatim>\<open>InitializeCriticalSection\<close>, which reports no failure; the source notes that it may raise
  an exception. That branch is the case \<open>native_ok = True\<close> as far as it returns.)
  \<^verbatim>\<open>DeleteCriticalSection\<close>, \<^verbatim>\<open>EnterCriticalSection\<close> and \<^verbatim>\<open>LeaveCriticalSection\<close> return
  nothing, so destroy, lock and unlock have the constant status \<open>0\<close>.
\<close>

definition xpthread_mutex_init :: "bool \<Rightarrow> CRITICAL_SECTION \<Rightarrow> int \<times> CRITICAL_SECTION" where
  "xpthread_mutex_init native_ok mutex =
     (if \<not> native_ok then (ENOMEM, mutex)
      else (0, \<lparr>OwningThread = None, RecursionCount = 0\<rparr>))"

definition xpthread_mutex_destroy :: "CRITICAL_SECTION \<Rightarrow> int" where
  "xpthread_mutex_destroy mutex = 0"

definition xpthread_mutex_lock :: "nat \<Rightarrow> CRITICAL_SECTION \<Rightarrow> (int \<times> CRITICAL_SECTION) option" where
  "xpthread_mutex_lock self mutex = map_option (\<lambda>m. (0, m)) (EnterCriticalSection self mutex)"

definition xpthread_mutex_unlock :: "nat \<Rightarrow> CRITICAL_SECTION \<Rightarrow> int \<times> CRITICAL_SECTION" where
  "xpthread_mutex_unlock self mutex = (0, LeaveCriticalSection self mutex)"

definition xpthread_mutex_trylock :: "nat \<Rightarrow> CRITICAL_SECTION \<Rightarrow> int \<times> CRITICAL_SECTION" where
  "xpthread_mutex_trylock self mutex =
     (case TryEnterCriticalSection self mutex of (ok, m) \<Rightarrow> (if ok then 0 else EBUSY, m))"

subsection \<open>Priority ceiling and robustness\<close>

text \<open>
  An \<^verbatim>\<open>int *\<close> out-parameter is \<open>None\<close> for a null pointer and \<open>Some x\<close> for a pointer to a
  cell holding \<open>x\<close>; the function returns the cell as it leaves it. The mutex is returned
  too, so that "unchanged" can be stated.
\<close>

definition xpthread_mutex_getprioceiling ::
  "CRITICAL_SECTION \<Rightarrow> int option \<Rightarrow> int \<times> int option \<times> CRITICAL_SECTION" where
  "xpthread_mutex_getprioceiling mutex prioceiling =
     (case prioceiling of
        None \<Rightarrow> (EINVAL, None, mutex)
      | Some _ \<Rightarrow> (0, Some 0, mutex))"

definition xpthread_mutex_setprioceiling ::
  "CRITICAL_SECTION \<Rightarrow> int \<Rightarrow> int option \<Rightarrow> int \<times> int option \<times> CRITICAL_SECTION" where
  "xpthread_mutex_setprioceiling mutex prioceiling old_ceiling =
     (0, (case old_ceiling of None \<Rightarrow> None | Some _ \<Rightarrow> Some 0), mutex)"

definition xpthread_mutex_consistent :: "CRITICAL_SECTION \<Rightarrow> int \<times> CRITICAL_SECTION" where
  "xpthread_mutex_consistent mutex = (0, mutex)"

subsection \<open>Timed lock\<close>

text \<open>
  What a call of \<^verbatim>\<open>xpthread_mutex_timedlock\<close> did: the status it returned, the mutex as it
  left it, how many times it called \<^verbatim>\<open>TryEnterCriticalSection\<close> and how many times it
  called \<^verbatim>\<open>Sleep(1)\<close> (the final value of \<^verbatim>\<open>elapsed\<close>).
\<close>

record timedlock_result =
  status :: int
  mutex_after :: CRITICAL_SECTION
  attempts :: nat
  elapsed_ms :: DWORD

text \<open>
  The \<^verbatim>\<open>while (elapsed < timeout_ms)\<close> loop (lines 297 to 301). While the caller sleeps the
  other threads run: \<open>others k\<close> is what they do to the mutex during the sleep that starts at
  \<open>elapsed = k\<close>. The result is whether the loop acquired the mutex, with the mutex, the
  number of attempts and \<^verbatim>\<open>elapsed\<close> at that point.
\<close>

lemma elapsed_succ_unat:
  fixes elapsed :: DWORD
  assumes "elapsed < timeout_ms"
  shows "unat (elapsed + 1) = Suc (unat elapsed)"
proof -
  from assms have "unat elapsed < unat timeout_ms"
    by (simp add: word_less_nat_alt)
  moreover have "unat timeout_ms < 2 ^ 32"
    using unsigned_less [of timeout_ms, where 'a = nat] by simp
  ultimately have "unat elapsed + 1 < 2 ^ 32" by simp
  then show ?thesis
    by (simp add: unat_word_ariths)
qed

function timedlock_loop ::
  "(nat \<Rightarrow> CRITICAL_SECTION \<Rightarrow> CRITICAL_SECTION) \<Rightarrow> nat \<Rightarrow> DWORD \<Rightarrow> DWORD \<Rightarrow>
   CRITICAL_SECTION \<Rightarrow> nat \<Rightarrow> bool \<times> CRITICAL_SECTION \<times> nat \<times> DWORD" where
  "timedlock_loop others self timeout_ms elapsed mutex tries =
     (if elapsed < timeout_ms then
        (if fst (TryEnterCriticalSection self mutex)
         then (True, snd (TryEnterCriticalSection self mutex), tries + 1, elapsed)
         else timedlock_loop others self timeout_ms (elapsed + 1)
                (others (unat elapsed) (snd (TryEnterCriticalSection self mutex))) (tries + 1))
      else (False, mutex, tries, elapsed))"
  by pat_completeness auto
termination
proof (relation "measure (\<lambda>(others, self, timeout_ms, elapsed, mutex, tries). unat timeout_ms - unat elapsed)")
  show "wf (measure (\<lambda>(others, self, timeout_ms, elapsed, mutex, tries). unat timeout_ms - unat elapsed))"
    by simp
next
  fix others :: "nat \<Rightarrow> CRITICAL_SECTION \<Rightarrow> CRITICAL_SECTION"
  fix self :: nat and timeout_ms elapsed :: DWORD and mutex :: CRITICAL_SECTION and tries :: nat
  assume lt: "elapsed < timeout_ms"
  then have "unat (elapsed + 1) = Suc (unat elapsed)"
    by (rule elapsed_succ_unat)
  moreover from lt have "unat elapsed < unat timeout_ms"
    by (simp add: word_less_nat_alt)
  ultimately show "((others, self, timeout_ms, elapsed + 1,
        others (unat elapsed) (snd (TryEnterCriticalSection self mutex)), tries + 1),
       (others, self, timeout_ms, elapsed, mutex, tries))
      \<in> measure (\<lambda>(others, self, timeout_ms, elapsed, mutex, tries). unat timeout_ms - unat elapsed)"
    by simp
qed

declare timedlock_loop.simps [simp del]

text \<open>
  Lines 295 to 306: the loop from \<^verbatim>\<open>elapsed = 0\<close>, then the final attempt.
\<close>

definition timedlock_poll ::
  "(nat \<Rightarrow> CRITICAL_SECTION \<Rightarrow> CRITICAL_SECTION) \<Rightarrow> nat \<Rightarrow> DWORD \<Rightarrow> CRITICAL_SECTION \<Rightarrow>
   timedlock_result" where
  "timedlock_poll others self timeout_ms mutex =
     (case timedlock_loop others self timeout_ms 0 mutex 0 of
        (acquired, m, tries, elapsed) \<Rightarrow>
          if acquired
          then \<lparr>status = 0, mutex_after = m, attempts = tries, elapsed_ms = elapsed\<rparr>
          else (case TryEnterCriticalSection self m of
                  (ok, m') \<Rightarrow>
                    \<lparr>status = (if ok then 0 else ETIMEDOUT), mutex_after = m',
                     attempts = tries + 1, elapsed_ms = elapsed\<rparr>))"

text \<open>C division of two \<^verbatim>\<open>long\<close>s: the quotient is truncated towards zero.\<close>

definition long_div :: "long \<Rightarrow> long \<Rightarrow> long" where
  "long_div a b = word_of_int (sint a sdiv sint b)"

text \<open>
  Lines 278 to 293, the deadline. \<^verbatim>\<open>sec_diff\<close> is a \<^verbatim>\<open>long\<close>: the 64-bit difference of the
  two \<^verbatim>\<open>time_t\<close> is cut to its low 32 bits. \<^verbatim>\<open>total_ms64\<close> is computed on \<^verbatim>\<open>int64_t\<close> from
  the sign-extended \<^verbatim>\<open>sec_diff\<close> and the truncating division of \<^verbatim>\<open>nsec_diff\<close>.
  The source uses \<^verbatim>\<open>total_ms64\<close> for the test against zero only: it never stores it in
  \<^verbatim>\<open>timeout_ms\<close>.
\<close>

definition total_ms64 :: "timespec \<Rightarrow> timespec \<Rightarrow> 64 word" where
  "total_ms64 abstime now =
     (let sec_diff0 = (ucast (tv_sec abstime - tv_sec now) :: long);
          nsec_diff0 = tv_nsec abstime - tv_nsec now;
          nsec_diff = (if nsec_diff0 <s 0 then nsec_diff0 + 1000000000 else nsec_diff0);
          sec_diff = (if nsec_diff0 <s 0 then sec_diff0 - 1 else sec_diff0)
      in (scast sec_diff :: 64 word) * 1000 + scast (long_div nsec_diff 1000000))"

text \<open>
  \<^verbatim>\<open>xpthread_mutex_timedlock\<close>. \<^verbatim>\<open>DWORD timeout_ms\<close> is declared without an initialiser and
  is assigned only in the \<^verbatim>\<open>else\<close> branch (null \<^verbatim>\<open>abstime\<close>). With a non-null \<^verbatim>\<open>abstime\<close>
  whose \<^verbatim>\<open>total_ms64\<close> is positive the loop reads the variable as the stack left it: that
  indeterminate value is the first argument. The second argument is what the platform
  clock reads when \<^verbatim>\<open>xpthread_get_realtime\<close> is called.
\<close>

definition xpthread_mutex_timedlock ::
  "DWORD \<Rightarrow> FILETIME \<Rightarrow> (nat \<Rightarrow> CRITICAL_SECTION \<Rightarrow> CRITICAL_SECTION) \<Rightarrow> nat \<Rightarrow>
   CRITICAL_SECTION \<Rightarrow> timespec option \<Rightarrow> timedlock_result" where
  "xpthread_mutex_timedlock indeterminate clock others self mutex abstime =
     (case abstime of
        Some deadline \<Rightarrow>
          if total_ms64 deadline (xpthread_get_realtime clock) \<le>s 0
          then \<lparr>status = ETIMEDOUT, mutex_after = mutex, attempts = 0, elapsed_ms = 0\<rparr>
          else timedlock_poll others self indeterminate mutex
      | None \<Rightarrow> timedlock_poll others self INFINITE mutex)"

section \<open>Once-initializer\<close>

text \<open>
  \<^verbatim>\<open>xpthread_once_t\<close> is an \<^verbatim>\<open>INIT_ONCE\<close>: not yet initialised, being initialised by some
  thread, or done. The initializer \<^verbatim>\<open>void (*fn)(void)\<close> acts on the state \<open>'w\<close> of the rest
  of the program; a null function pointer is \<open>None\<close>.
\<close>

datatype INIT_ONCE = Once_uninitialized | Once_in_progress | Once_done

record 'w once_ctx =
  fn :: "('w \<Rightarrow> 'w) option"

text \<open>
  \<^verbatim>\<open>once_wrapper\<close>: \<^verbatim>\<open>Parameter\<close> is the pointer to the \<^verbatim>\<open>once_ctx\<close> (null is \<open>None\<close>). The result
  is the \<^verbatim>\<open>BOOL\<close> returned and the state left by the call of \<^verbatim>\<open>ctx->fn\<close>, if any.
\<close>

definition once_wrapper :: "'w once_ctx option \<Rightarrow> 'w \<Rightarrow> bool \<times> 'w" where
  "once_wrapper Parameter w =
     (case Parameter of
        None \<Rightarrow> (False, w)
      | Some ctx \<Rightarrow>
          (case fn ctx of
             None \<Rightarrow> (False, w)
           | Some f \<Rightarrow> (True, f w)))"

text \<open>
  \<^verbatim>\<open>InitOnceExecuteOnce\<close> of the platform, as documented: on a control that is done it
  returns \<^verbatim>\<open>TRUE\<close> without calling the callback; on a fresh control it calls the callback,
  and the control becomes done exactly when the callback returns \<^verbatim>\<open>TRUE\<close>, which is also
  the result; while another thread is initialising, the caller waits (\<open>None\<close>).
\<close>

definition InitOnceExecuteOnce ::
  "INIT_ONCE \<Rightarrow> ('p \<Rightarrow> 'w \<Rightarrow> bool \<times> 'w) \<Rightarrow> 'p \<Rightarrow> 'w \<Rightarrow> (bool \<times> INIT_ONCE \<times> 'w) option" where
  "InitOnceExecuteOnce InitOnce InitFn Parameter w =
     (case InitOnce of
        Once_done \<Rightarrow> Some (True, Once_done, w)
      | Once_in_progress \<Rightarrow> None
      | Once_uninitialized \<Rightarrow>
          (case InitFn Parameter w of
             (ok, w') \<Rightarrow> Some (ok, if ok then Once_done else Once_uninitialized, w')))"

definition xpthread_once ::
  "INIT_ONCE \<Rightarrow> ('w \<Rightarrow> 'w) option \<Rightarrow> 'w \<Rightarrow> (int \<times> INIT_ONCE \<times> 'w) option" where
  "xpthread_once once_control init_routine w =
     (let ctx = \<lparr>fn = init_routine\<rparr>
      in case InitOnceExecuteOnce once_control once_wrapper (Some ctx) w of
           None \<Rightarrow> None
         | Some (result, once_control', w') \<Rightarrow>
             Some (if result then 0 else - 1, once_control', w'))"

text \<open>A number of calls of \<^verbatim>\<open>xpthread_once\<close> in a row on one control; the statuses in order.\<close>

fun once_calls ::
  "nat \<Rightarrow> INIT_ONCE \<Rightarrow> ('w \<Rightarrow> 'w) option \<Rightarrow> 'w \<Rightarrow> (int list \<times> INIT_ONCE \<times> 'w) option" where
  "once_calls 0 once_control init_routine w = Some ([], once_control, w)"
| "once_calls (Suc n) once_control init_routine w =
     (case xpthread_once once_control init_routine w of
        None \<Rightarrow> None
      | Some (st, once_control', w') \<Rightarrow>
          (case once_calls n once_control' init_routine w' of
             None \<Rightarrow> None
           | Some (sts, c, w'') \<Rightarrow> Some (st # sts, c, w'')))"

section \<open>Thread lifecycle and cancellation\<close>

text \<open>
  The code a thread runs is user code; of it the model keeps the calls into this layer and
  the value finally returned by the entry function. A \<^verbatim>\<open>start_routine\<close> maps its argument
  to such code.
\<close>

datatype call =
    Call_exit ptr
  | Call_testcancel
  | Call_setcancelstate int
  | Call_setcanceltype int
  | Call_cancel nat

datatype code = Return ptr | Do call code

record xpthread_win_ctx =
  start_routine :: "ptr \<Rightarrow> code"
  arg :: ptr
  cancel_requested :: long
  retval :: ptr

text \<open>
  What a thread is doing: about to enter \<^verbatim>\<open>thread_wrapper\<close> with the given context pointer,
  running the rest of its entry function, ended with an exit code, or (the main thread)
  running the program that calls into this layer from outside.
\<close>

datatype activity = Starting nat | Running code | Ended DWORD | Main_program

text \<open>
  Per thread: the thread-local \<^verbatim>\<open>xpthread_self_ctx\<close> (an address, \<open>0\<close> for \<^verbatim>\<open>NULL\<close>), the
  thread-local statics \<^verbatim>\<open>cancel_state\<close> of \<^verbatim>\<open>xpthread_setcancelstate\<close> and of
  \<^verbatim>\<open>xpthread_setcanceltype\<close>, what the thread is doing, and whether its \<^verbatim>\<open>HANDLE\<close> is
  still open.
\<close>

record thread =
  xpthread_self_ctx :: nat
  cancel_state :: int
  cancel_type_state :: int
  activity :: activity
  handle_open :: bool

text \<open>
  The process: the heap of context records (by address), the threads (by handle; \<open>0\<close> is
  the null handle), and the next address and handle the platform will hand out.
\<close>

record process =
  ctx_heap :: "nat \<Rightarrow> xpthread_win_ctx option"
  threads :: "nat \<Rightarrow> thread option"
  next_ctx :: nat
  next_handle :: nat

definition XPTHREAD_CANCEL_ENABLE :: int where "XPTHREAD_CANCEL_ENABLE = 1"
definition XPTHREAD_CANCEL_DISABLE :: int where "XPTHREAD_CANCEL_DISABLE = 0"

text \<open>A process as it starts: the main thread alone, under handle \<open>1\<close>, no context record.\<close>

definition boot :: process where
  "boot = \<lparr>ctx_heap = (\<lambda>_. None),
           threads = (\<lambda>_. None)(1 := Some \<lparr>xpthread_self_ctx = 0,
             cancel_state = XPTHREAD_CANCEL_ENABLE, cancel_type_state = XPTHREAD_CANCEL_ENABLE,
             activity = Main_program, handle_open = True\<rparr>),
           next_ctx = 1, next_handle = 2\<rparr>"

subsection \<open>Platform calls\<close>

text \<open>\<^verbatim>\<open>_endthreadex(code)\<close> called by thread \<open>self\<close>.\<close>

definition endthreadex :: "nat \<Rightarrow> DWORD \<Rightarrow> process \<Rightarrow> process" where
  "endthreadex self code p =
     (case threads p self of
        None \<Rightarrow> p
      | Some t \<Rightarrow> p\<lparr>threads := (threads p)(self := Some (t\<lparr>activity := Ended code\<rparr>))\<rparr>)"

text \<open>\<^verbatim>\<open>CloseHandle\<close>: fails on a handle that is not open.\<close>

definition CloseHandle :: "nat \<Rightarrow> process \<Rightarrow> bool \<times> process" where
  "CloseHandle h p =
     (case threads p h of
        None \<Rightarrow> (False, p)
      | Some t \<Rightarrow>
          if handle_open t
          then (True, p\<lparr>threads := (threads p)(h := Some (t\<lparr>handle_open := False\<rparr>))\<rparr>)
          else (False, p))"

text \<open>
  \<^verbatim>\<open>WaitForSingleObject(h, INFINITE)\<close>: returns at once (failed) on a handle that is not
  open, returns (signalled) once the thread has ended, and does not return before: \<open>None\<close>.
\<close>

definition WaitForSingleObject :: "nat \<Rightarrow> process \<Rightarrow> bool option" where
  "WaitForSingleObject h p =
     (case threads p h of
        None \<Rightarrow> Some False
      | Some t \<Rightarrow>
          if \<not> handle_open t then Some False
          else (case activity t of Ended _ \<Rightarrow> Some True | _ \<Rightarrow> None))"

text \<open>\<^verbatim>\<open>GetExitCodeThread\<close>: the exit code of an ended thread behind an open handle.\<close>

definition GetExitCodeThread :: "nat \<Rightarrow> process \<Rightarrow> DWORD option" where
  "GetExitCodeThread h p =
     (case threads p h of
        None \<Rightarrow> None
      | Some t \<Rightarrow>
          if \<not> handle_open t then None
          else (case activity t of Ended c \<Rightarrow> Some c | _ \<Rightarrow> None))"

subsection \<open>The operations of \<^verbatim>\<open>xpthread.c\<close>\<close>

text \<open>
  \<^verbatim>\<open>xpthread_create\<close>. The first two arguments are whether \<^verbatim>\<open>calloc\<close> and \<^verbatim>\<open>_beginthreadex\<close>
  succeed. The result is the status, the handle stored through \<^verbatim>\<open>thread\<close> (if any) and the
  process. \<^verbatim>\<open>calloc\<close> zeroes the record, so \<^verbatim>\<open>cancel_requested\<close> and \<^verbatim>\<open>retval\<close> start at \<open>0\<close>.
\<close>

definition xpthread_create ::
  "bool \<Rightarrow> bool \<Rightarrow> (ptr \<Rightarrow> code) \<Rightarrow> ptr \<Rightarrow> process \<Rightarrow> int \<times> nat option \<times> process" where
  "xpthread_create calloc_ok beginthread_ok routine argument p =
     (if \<not> calloc_ok then (ENOMEM, None, p)
      else
        let ctx = next_ctx p;
            p1 = p\<lparr>ctx_heap := (ctx_heap p)(ctx := Some \<lparr>start_routine = routine, arg = argument,
                                      cancel_requested = 0, retval = 0\<rparr>),
                   next_ctx := Suc ctx\<rparr>
        in if \<not> beginthread_ok then (EAGAIN, None, p1\<lparr>ctx_heap := (ctx_heap p1)(ctx := None)\<rparr>)
           else
             let h = next_handle p1
             in (0, Some h,
                 p1\<lparr>threads := (threads p1)(h := Some \<lparr>xpthread_self_ctx = 0,
                        cancel_state = XPTHREAD_CANCEL_ENABLE,
                        cancel_type_state = XPTHREAD_CANCEL_ENABLE,
                        activity = Starting ctx, handle_open = True\<rparr>),
                    next_handle := Suc h\<rparr>))"

text \<open>
  \<^verbatim>\<open>xpthread_join\<close> called by thread \<open>self\<close>. \<^verbatim>\<open>retval_p\<close> is the \<^verbatim>\<open>void **retval\<close>: \<open>None\<close> for
  null, \<open>Some old\<close> for a pointer to a cell holding \<open>old\<close>; the cell is returned as the call
  leaves it. The record read is the one \<^verbatim>\<open>xpthread_self_ctx\<close> of the calling thread points
  to. The exit code read by \<^verbatim>\<open>GetExitCodeThread\<close> goes to a local that is not used.
\<close>

definition xpthread_join ::
  "nat \<Rightarrow> nat \<Rightarrow> ptr option \<Rightarrow> process \<Rightarrow> (int \<times> ptr option \<times> process) option" where
  "xpthread_join self thread retval_p p =
     (case WaitForSingleObject thread p of
        None \<Rightarrow> None
      | Some _ \<Rightarrow>
          let code = GetExitCodeThread thread p;
              self_ctx = (case threads p self of None \<Rightarrow> 0 | Some t \<Rightarrow> xpthread_self_ctx t);
              cell = (case retval_p of
                        None \<Rightarrow> None
                      | Some old \<Rightarrow>
                          if self_ctx \<noteq> 0
                          then (case ctx_heap p self_ctx of
                                  None \<Rightarrow> Some old
                                | Some c \<Rightarrow> Some (retval c))
                          else Some old)
          in Some (0, cell, snd (CloseHandle thread p)))"

definition xpthread_detach :: "nat \<Rightarrow> process \<Rightarrow> int \<times> process" where
  "xpthread_detach thread p =
     (case CloseHandle thread p of (ok, p') \<Rightarrow> (if ok then 0 else - 1, p'))"

text \<open>
  \<^verbatim>\<open>xpthread_setcancelstate\<close> and \<^verbatim>\<open>xpthread_setcanceltype\<close> called by thread \<open>self\<close>; the
  out-parameter is \<open>None\<close> for null and is returned as the call leaves it.
\<close>

definition xpthread_setcancelstate ::
  "nat \<Rightarrow> int \<Rightarrow> int option \<Rightarrow> process \<Rightarrow> int \<times> int option \<times> process" where
  "xpthread_setcancelstate self state oldstate p =
     (case threads p self of
        None \<Rightarrow> (0, oldstate, p)
      | Some t \<Rightarrow>
          (0, (case oldstate of None \<Rightarrow> None | Some _ \<Rightarrow> Some (cancel_state t)),
           p\<lparr>threads := (threads p)(self := Some (t\<lparr>cancel_state := state\<rparr>))\<rparr>))"

definition xpthread_setcanceltype ::
  "nat \<Rightarrow> int \<Rightarrow> int option \<Rightarrow> process \<Rightarrow> int \<times> int option \<times> process" where
  "xpthread_setcanceltype self type oldtype p =
     (case threads p self of
        None \<Rightarrow> (0, oldtype, p)
      | Some t \<Rightarrow>
          (0, (case oldtype of None \<Rightarrow> None | Some _ \<Rightarrow> Some (cancel_type_state t)),
           p\<lparr>threads := (threads p)(self := Some (t\<lparr>cancel_type_state := type\<rparr>))\<rparr>))"

text \<open>
  \<^verbatim>\<open>xpthread_cancel\<close>: the handle is tested against null and nothing else happens; the
  process is returned as it was.
\<close>

definition xpthread_cancel :: "nat \<Rightarrow> process \<Rightarrow> int \<times> process" where
  "xpthread_cancel th p = (if th = 0 then (EINVAL, p) else (0, p))"

text \<open>
  \<^verbatim>\<open>xpthread_testcancel\<close> called by thread \<open>self\<close>: \<^verbatim>\<open>InterlockedCompareExchange(x, 0, 0)\<close>
  reads \<^verbatim>\<open>*x\<close> and leaves it as it is.
\<close>

definition xpthread_testcancel :: "nat \<Rightarrow> process \<Rightarrow> process" where
  "xpthread_testcancel self p =
     (case threads p self of
        None \<Rightarrow> p
      | Some t \<Rightarrow>
          if xpthread_self_ctx t \<noteq> 0 \<and>
             (case ctx_heap p (xpthread_self_ctx t) of
                None \<Rightarrow> False
              | Some c \<Rightarrow> cancel_requested c \<noteq> 0)
          then endthreadex self 0 p
          else p)"

text \<open>
  \<^verbatim>\<open>xpthread_exit\<close> called by thread \<open>self\<close>: the pointer is cut to an \<^verbatim>\<open>unsigned\<close> exit code.
\<close>

definition xpthread_exit :: "nat \<Rightarrow> ptr \<Rightarrow> process \<Rightarrow> process" where
  "xpthread_exit self value p =
     (let code = (if value \<noteq> 0 then (ucast value :: DWORD) else 0)
      in endthreadex self code p)"

subsection \<open>Running a thread\<close>

text \<open>One call of the entry function's code, made by thread \<open>self\<close>.\<close>

fun perform :: "nat \<Rightarrow> call \<Rightarrow> process \<Rightarrow> process" where
  "perform self (Call_exit v) p = xpthread_exit self v p"
| "perform self Call_testcancel p = xpthread_testcancel self p"
| "perform self (Call_setcancelstate st) p = snd (snd (xpthread_setcancelstate self st None p))"
| "perform self (Call_setcanceltype ty) p = snd (snd (xpthread_setcanceltype self ty None p))"
| "perform self (Call_cancel th) p = snd (xpthread_cancel th p)"

text \<open>The activity of a thread once it has made a call: unless the call ended it, the rest.\<close>

definition continue_with :: "nat \<Rightarrow> code \<Rightarrow> process \<Rightarrow> process" where
  "continue_with self rest p =
     (case threads p self of
        None \<Rightarrow> p
      | Some t \<Rightarrow>
          (case activity t of
             Ended _ \<Rightarrow> p
           | _ \<Rightarrow> p\<lparr>threads := (threads p)(self := Some (t\<lparr>activity := Running rest\<rparr>))\<rparr>))"

text \<open>
  \<^verbatim>\<open>thread_wrapper\<close>, run by the new thread \<open>h\<close> with the context pointer as argument, in two
  parts. Up to the call of the entry function: it stores the pointer in the thread-local
  \<^verbatim>\<open>xpthread_self_ctx\<close> and calls \<^verbatim>\<open>ctx->start_routine(ctx->arg)\<close>. After the entry function
  has returned \<open>ret\<close>: it stores \<^verbatim>\<open>ctx->retval = ret\<close> and calls \<^verbatim>\<open>_endthreadex(0)\<close>; \<^verbatim>\<open>ctx\<close> is
  still the pointer that \<^verbatim>\<open>xpthread_self_ctx\<close> holds, as nothing else assigns that variable.
\<close>

definition thread_wrapper_enter :: "nat \<Rightarrow> nat \<Rightarrow> process \<Rightarrow> process" where
  "thread_wrapper_enter h ctx p =
     (case threads p h of
        None \<Rightarrow> p
      | Some t \<Rightarrow>
          (case ctx_heap p ctx of
             None \<Rightarrow> p
           | Some c \<Rightarrow>
               p\<lparr>threads := (threads p)(h := Some (t\<lparr>xpthread_self_ctx := ctx,
                     activity := Running (start_routine c (arg c))\<rparr>))\<rparr>))"

definition thread_wrapper_leave :: "nat \<Rightarrow> ptr \<Rightarrow> process \<Rightarrow> process" where
  "thread_wrapper_leave h ret p =
     (case threads p h of
        None \<Rightarrow> p
      | Some t \<Rightarrow>
          (case ctx_heap p (xpthread_self_ctx t) of
             None \<Rightarrow> endthreadex h 0 p
           | Some c \<Rightarrow>
               endthreadex h 0
                 (p\<lparr>ctx_heap := (ctx_heap p)(xpthread_self_ctx t := Some (c\<lparr>retval := ret\<rparr>))\<rparr>)))"

text \<open>
  One step of thread \<open>h\<close>: it enters \<^verbatim>\<open>thread_wrapper\<close>, or makes the next call of its entry
  function, or returns from the entry function into \<^verbatim>\<open>thread_wrapper\<close>.
\<close>

definition step :: "nat \<Rightarrow> process \<Rightarrow> process" where
  "step h p =
     (case threads p h of
        None \<Rightarrow> p
      | Some t \<Rightarrow>
          (case activity t of
             Starting ctx \<Rightarrow> thread_wrapper_enter h ctx p
           | Running (Return ret) \<Rightarrow> thread_wrapper_leave h ret p
           | Running (Do c rest) \<Rightarrow> continue_with h rest (perform h c p)
           | Ended _ \<Rightarrow> p
           | Main_program \<Rightarrow> p))"

text \<open>Thread \<open>h\<close> scheduled \<open>n\<close> times in a row.\<close>

fun steps :: "nat \<Rightarrow> nat \<Rightarrow> process \<Rightarrow> process" where
  "steps 0 h p = p"
| "steps (Suc n) h p = steps n h (step h p)"

section \<open>Concrete inputs\<close>

text \<open>
  The platform clock at 2026-10-30 00:00:00 UTC: 134377920000000000 ticks of 100 ns since
  1601, that is 1793318400 s after the Unix epoch.
\<close>

definition clock_2026 :: FILETIME where
  "clock_2026 = \<lparr>dwLowDateTime = 0x9B418000, dwHighDateTime = 0x1DD6801\<rparr>"

definition unlocked :: CRITICAL_SECTION where
  "unlocked = \<lparr>OwningThread = None, RecursionCount = 0\<rparr>"

text \<open>A mutex that thread 2 holds, and other threads that leave it so.\<close>

definition held_by_other :: CRITICAL_SECTION where
  "held_by_other = \<lparr>OwningThread = Some 2, RecursionCount = 1\<rparr>"

definition idle :: "nat \<Rightarrow> CRITICAL_SECTION \<Rightarrow> CRITICAL_SECTION" where
  "idle k m = m"

text \<open>
  A process in which the main thread has created one thread (handle \<open>2\<close>, context record at
  address \<open>1\<close>) with the given entry function and a null argument.
\<close>

definition spawn :: "(ptr \<Rightarrow> code) \<Rightarrow> process" where
  "spawn routine = snd (snd (xpthread_create True True routine 0 boot))"

text \<open>Entry functions: one calls \<^verbatim>\<open>xpthread_exit(v)\<close>, one returns \<open>v\<close>, one tests for cancellation.\<close>

definition exit_routine :: "ptr \<Rightarrow> ptr \<Rightarrow> code" where
  "exit_routine v a = Do (Call_exit v) (Return 0)"

definition return_routine :: "ptr \<Rightarrow> ptr \<Rightarrow> code" where
  "return_routine v a = Return v"

definition testcancel_routine :: "ptr \<Rightarrow> code" where
  "testcancel_routine a = Do Call_testcancel (Return 7)"

text \<open>The created thread (handle \<open>2\<close>, record at \<open>1\<close>) once it runs code \<open>c\<close>.\<close>

definition worker_thread :: "code \<Rightarrow> thread" where
  "worker_thread c = \<lparr>xpthread_self_ctx = 1, cancel_state = XPTHREAD_CANCEL_ENABLE,
     cancel_type_state = XPTHREAD_CANCEL_ENABLE, activity = Running c, handle_open = True\<rparr>"

text \<open>
  A process in which the main thread has created two threads: handle \<open>2\<close> with the record at
  \<open>1\<close> and the first entry function, handle \<open>3\<close> with the record at \<open>2\<close> and the second.
\<close>

definition spawn_two :: "(ptr \<Rightarrow> code) \<Rightarrow> (ptr \<Rightarrow> code) \<Rightarrow> process" where
  "spawn_two first second = snd (snd (xpthread_create True True second 0 (spawn first)))"

section \<open>Vocabulary of the specification\<close>

text \<open>The closed set of status values, in the words of the interface description.\<close>

definition spec_status_set :: "int set" where
  "spec_status_set = {0, ETIMEDOUT, EBUSY, EINVAL, ENOMEM, EAGAIN, ENOTSUP, ENOSYS}"

text \<open>
  The pending-request flag of a thread is the \<^verbatim>\<open>cancel_requested\<close> of the record its
  \<^verbatim>\<open>xpthread_self_ctx\<close> points to; its cancellation state is the \<^verbatim>\<open>cancel_state\<close> kept by
  \<^verbatim>\<open>xpthread_setcancelstate\<close>.
\<close>

definition pending_request :: "process \<Rightarrow> nat \<Rightarrow> bool" where
  "pending_request p h =
     (case threads p h of
        None \<Rightarrow> False
      | Some t \<Rightarrow>
          xpthread_self_ctx t \<noteq> 0 \<and>
          (case ctx_heap p (xpthread_self_ctx t) of
             None \<Rightarrow> False
           | Some c \<Rightarrow> cancel_requested c \<noteq> 0))"

definition cancel_enabled :: "process \<Rightarrow> nat \<Rightarrow> bool" where
  "cancel_enabled p h =
     (case threads p h of
        None \<Rightarrow> False
      | Some t \<Rightarrow> cancel_state t = XPTHREAD_CANCEL_ENABLE)"

definition ended :: "process \<Rightarrow> nat \<Rightarrow> bool" where
  "ended p h =
     (case threads p h of
        None \<Rightarrow> False
      | Some t \<Rightarrow> (case activity t of Ended _ \<Rightarrow> True | _ \<Rightarrow> False))"

section \<open>Processes the layer can produce\<close>

text \<open>Every context record has its \<^verbatim>\<open>cancel_requested\<close> clear.\<close>

definition flags_clear :: "process \<Rightarrow> bool" where
  "flags_clear p =
     (\<forall>a. case ctx_heap p a of None \<Rightarrow> True | Some c \<Rightarrow> cancel_requested c = 0)"

text \<open>
  The processes reached from \<open>boot\<close> by the operations of the layer, called by any thread
  with any arguments, and by steps of the created threads.
\<close>

inductive reachable :: "process \<Rightarrow> bool" where
  reach_boot: "reachable boot"
| reach_create:
    "reachable p \<Longrightarrow>
     reachable (snd (snd (xpthread_create calloc_ok beginthread_ok routine argument p)))"
| reach_step: "reachable p \<Longrightarrow> reachable (step h p)"
| reach_join:
    "reachable p \<Longrightarrow> xpthread_join self h rp p = Some (st, cell, p') \<Longrightarrow> reachable p'"
| reach_detach: "reachable p \<Longrightarrow> reachable (snd (xpthread_detach h p))"
| reach_cancel: "reachable p \<Longrightarrow> reachable (snd (xpthread_cancel h p))"
| reach_setcancelstate:
    "reachable p \<Longrightarrow> reachable (snd (snd (xpthread_setcancelstate self st old p)))"
| reach_setcanceltype:
    "reachable p \<Longrightarrow> reachable (snd (snd (xpthread_setcanceltype self ty old p)))"
| reach_testcancel: "reachable p \<Longrightarrow> reachable (xpthread_testcancel self p)"
| reach_exit: "reachable p \<Longrightarrow> reachable (xpthread_exit self v p)"

section \<open>Properties of the time source\<close>

lemma sint_small_long:
  fixes n :: "32 word"
  assumes "uint n < 2 ^ 31"
  shows "sint n = uint n"
proof -
  have "signed_take_bit 31 (uint n) = uint n"
  proof (rule signed_take_bit_int_eq_self)
    show "- (2 ^ 31) \<le> uint n" by (rule order_trans [where y = 0]) simp_all
    show "uint n < 2 ^ 31" by (rule assms)
  qed
  then show ?thesis by (simp add: sint_uint)
qed

lemma ticks_mod_bound:
  fixes t :: "64 word"
  shows "uint (t mod 10000000) < 10000000"
  by (simp add: uint_mod)

lemma nsec_of_ticks_uint:
  fixes t :: "64 word"
  shows "uint ((ucast ((t mod 10000000) * 100)) :: 32 word) = uint (t mod 10000000) * 100"
proof -
  have "uint ((t mod 10000000) * 100) = uint (t mod 10000000) * 100"
    using ticks_mod_bound [of t] by (simp add: uint_word_ariths take_bit_int_eq_self)
  then show ?thesis
    using ticks_mod_bound [of t] by (simp add: unsigned_ucast_eq take_bit_int_eq_self)
qed

lemma realtime_nsec_uint:
  "uint (tv_nsec (xpthread_get_realtime ft)) < 1000000000"
proof -
  define t where "t = QuadPart ft - 116444736000000000"
  have "uint (ucast ((t mod 10000000) * 100) :: 32 word) = uint (t mod 10000000) * 100"
    by (rule nsec_of_ticks_uint)
  then have "uint (ucast ((t mod 10000000) * 100) :: 32 word) < 1000000000"
    using ticks_mod_bound [of t] by simp
  then show ?thesis
    by (simp add: xpthread_get_realtime_def Let_def t_def)
qed

text \<open>
  C7. Whatever tick count the platform reports, the nanoseconds field written by
  \<open>xpthread_get_realtime\<close>, read as the signed \<^verbatim>\<open>long\<close> it is, lies in \<open>[0, 10^9)\<close>.
\<close>

theorem realtime_nsec_normalized:
  "0 \<le> sint (tv_nsec (xpthread_get_realtime ft)) \<and>
   sint (tv_nsec (xpthread_get_realtime ft)) < 1000000000"
proof -
  define n where "n = tv_nsec (xpthread_get_realtime ft)"
  have b: "uint n < 1000000000"
    unfolding n_def by (rule realtime_nsec_uint)
  then have "sint n = uint n"
    by (intro sint_small_long) simp
  with b have "0 \<le> sint n \<and> sint n < 1000000000" by simp
  then show ?thesis
    by (simp add: n_def)
qed

section \<open>Properties of the timed lock\<close>

lemma now_2026: "xpthread_get_realtime clock_2026 = \<lparr>tv_sec = 1793318400, tv_nsec = 0\<rparr>"
  by (simp add: xpthread_get_realtime_def QuadPart_def clock_2026_def Let_def)

lemma try_busy:
  "OwningThread m = Some t \<Longrightarrow> t \<noteq> self \<Longrightarrow> TryEnterCriticalSection self m = (False, m)"
  by (simp add: TryEnterCriticalSection_def)

text \<open>
  While another thread keeps the mutex, the loop runs until \<^verbatim>\<open>elapsed\<close> reaches
  \<^verbatim>\<open>timeout_ms\<close>, whatever that bound is, and then gives up.
\<close>

lemma timedlock_loop_busy:
  "OwningThread m = Some t \<Longrightarrow> t \<noteq> self \<Longrightarrow> (\<forall>k. others k m = m) \<Longrightarrow>
   elapsed \<le> timeout_ms \<Longrightarrow>
    timedlock_loop others self timeout_ms elapsed m tries =
      (False, m, tries + (unat timeout_ms - unat elapsed), timeout_ms)"
proof (induction others self timeout_ms elapsed m tries rule: timedlock_loop.induct)
  case (1 others self timeout_ms elapsed mutex tries)
  have busy: "TryEnterCriticalSection self mutex = (False, mutex)"
    using "1.prems" by (simp add: try_busy)
  show ?case
  proof (cases "elapsed < timeout_ms")
    case True
    have s: "unat (elapsed + 1) = Suc (unat elapsed)"
      using True by (rule elapsed_succ_unat)
    have lt: "unat elapsed < unat timeout_ms"
      using True by (simp add: word_less_nat_alt)
    have le: "elapsed + 1 \<le> timeout_ms"
      using s lt by (simp add: word_le_nat_alt)
    have same: "others (unat elapsed) mutex = mutex"
      using "1.prems" by simp
    have "timedlock_loop others self timeout_ms (elapsed + 1) mutex (tries + 1) =
        (False, mutex, tries + 1 + (unat timeout_ms - unat (elapsed + 1)), timeout_ms)"
      using "1.IH" [OF True] busy same "1.prems" le by simp
    then show ?thesis
      using True busy same s lt
      by (simp add: timedlock_loop.simps [of others self timeout_ms elapsed])
  next
    case False
    with "1.prems" have "elapsed = timeout_ms" by simp
    then show ?thesis
      by (simp add: timedlock_loop.simps [of others self timeout_ms timeout_ms])
  qed
qed

lemma timedlock_poll_busy:
  assumes "OwningThread m = Some t" "t \<noteq> self" "\<forall>k. others k m = m"
  shows "timedlock_poll others self timeout_ms m =
     \<lparr>status = ETIMEDOUT, mutex_after = m, attempts = unat timeout_ms + 1,
      elapsed_ms = timeout_ms\<rparr>"
  using assms by (simp add: timedlock_poll_def timedlock_loop_busy try_busy)

text \<open>A free mutex is taken by the first attempt, in the loop or after it.\<close>

lemma timedlock_poll_free:
  assumes "OwningThread m = None"
  shows "timedlock_poll others self timeout_ms m =
     \<lparr>status = 0, mutex_after = m\<lparr>OwningThread := Some self, RecursionCount := 1\<rparr>,
      attempts = 1, elapsed_ms = 0\<rparr>"
  using assms
  by (simp add: timedlock_poll_def timedlock_loop.simps [of others self timeout_ms 0]
      TryEnterCriticalSection_def)

text \<open>
  C2 (the code at a failing input). The clock reads 2026-10-30 00:00:00, the deadline is one
  second later, another thread holds the mutex throughout. The remaining time the code
  computes is 1000 ms, yet the time polled is whatever \<^verbatim>\<open>timeout_ms\<close> held before the call:
  \<open>indeterminate\<close> sleeps and \<open>indeterminate + 1\<close> attempts, one attempt and no sleep when it
  is \<open>0\<close>.
\<close>

theorem timedlock_future_deadline_polls_indeterminate:
  "total_ms64 \<lparr>tv_sec = 1793318401, tv_nsec = 0\<rparr> (xpthread_get_realtime clock_2026) = 1000 \<and>
   xpthread_mutex_timedlock indeterminate clock_2026 idle 1 held_by_other
       (Some \<lparr>tv_sec = 1793318401, tv_nsec = 0\<rparr>) =
     \<lparr>status = ETIMEDOUT, mutex_after = held_by_other, attempts = unat indeterminate + 1,
      elapsed_ms = indeterminate\<rparr> \<and>
   xpthread_mutex_timedlock 0 clock_2026 idle 1 held_by_other
       (Some \<lparr>tv_sec = 1793318401, tv_nsec = 0\<rparr>) =
     \<lparr>status = ETIMEDOUT, mutex_after = held_by_other, attempts = 1, elapsed_ms = 0\<rparr>"
proof -
  have t: "total_ms64 \<lparr>tv_sec = 1793318401, tv_nsec = 0\<rparr> (xpthread_get_realtime clock_2026) = 1000"
    by (simp add: now_2026 total_ms64_def long_div_def Let_def)
  have p: "timedlock_poll idle 1 g held_by_other =
     \<lparr>status = ETIMEDOUT, mutex_after = held_by_other, attempts = unat g + 1, elapsed_ms = g\<rparr>"
    for g
    by (rule timedlock_poll_busy [where t = 2]) (simp_all add: held_by_other_def idle_def)
  show ?thesis
    using t p [of indeterminate] p [of 0]
    by (simp add: xpthread_mutex_timedlock_def word_sle_eq)
qed

text \<open>
  C4 (the code at a failing input). The clock reads 2026-10-30 00:00:00 and the deadline
  lies \<open>2^32 - 1\<close> seconds before it. The 64-bit difference is cut to the \<^verbatim>\<open>long\<close> \<open>1\<close>, so
  \<^verbatim>\<open>total_ms64\<close> is 1000 and the call does not return \<^verbatim>\<open>ETIMEDOUT\<close>: it goes on to
  \<^verbatim>\<open>TryEnterCriticalSection\<close> and takes the free mutex, whatever \<^verbatim>\<open>timeout_ms\<close> holds.
\<close>

theorem timedlock_far_past_deadline_acquires:
  "total_ms64 \<lparr>tv_sec = 1793318400 - 4294967295, tv_nsec = 0\<rparr>
       (xpthread_get_realtime clock_2026) = 1000 \<and>
   xpthread_mutex_timedlock indeterminate clock_2026 others 1 unlocked
       (Some \<lparr>tv_sec = 1793318400 - 4294967295, tv_nsec = 0\<rparr>) =
     \<lparr>status = 0, mutex_after = \<lparr>OwningThread = Some 1, RecursionCount = 1\<rparr>,
      attempts = 1, elapsed_ms = 0\<rparr>"
proof -
  have t: "total_ms64 \<lparr>tv_sec = 1793318400 - 4294967295, tv_nsec = 0\<rparr>
      (xpthread_get_realtime clock_2026) = 1000"
    by (simp add: now_2026 total_ms64_def long_div_def Let_def)
  show ?thesis
    using t by (simp add: xpthread_mutex_timedlock_def word_sle_eq timedlock_poll_free unlocked_def)
qed

subsection \<open>Past deadlines within the range of \<^verbatim>\<open>long\<close>\<close>

lemma sint_narrow:
  fixes w :: "64 word"
  assumes "- (2 ^ 31) \<le> sint w" "sint w < 2 ^ 31"
  shows "sint (ucast w :: 32 word) = sint w"
proof -
  have "(ucast :: 64 word \<Rightarrow> 32 word) = scast"
    by (rule down_cast_same) (simp add: is_down)
  then have "sint (ucast w :: 32 word) = signed_take_bit 31 (sint w)"
    by (simp add: signed_scast_eq)
  also have "\<dots> = sint w"
    using assms by (intro signed_take_bit_int_eq_self) simp_all
  finally show ?thesis .
qed

lemma sint_sub64:
  fixes x y :: "64 word"
  assumes "- (2 ^ 63) \<le> sint x - sint y" "sint x - sint y < 2 ^ 63"
  shows "sint (x - y) = sint x - sint y"
  using assms by (simp add: sint_word_diff signed_take_bit_int_eq_self)

lemma sint_sub32:
  fixes x y :: "32 word"
  assumes "- (2 ^ 31) \<le> sint x - sint y" "sint x - sint y < 2 ^ 31"
  shows "sint (x - y) = sint x - sint y"
  using assms by (simp add: sint_word_diff signed_take_bit_int_eq_self)

lemma sint_add32:
  fixes x y :: "32 word"
  assumes "- (2 ^ 31) \<le> sint x + sint y" "sint x + sint y < 2 ^ 31"
  shows "sint (x + y) = sint x + sint y"
  using assms by (simp add: sint_word_add signed_take_bit_int_eq_self)

lemma sint_ms64:
  fixes s q :: "32 word"
  assumes "0 \<le> sint q" "sint q < 1000"
  shows "sint ((scast s :: 64 word) * 1000 + scast q) = sint s * 1000 + sint q"
proof -
  have s: "sint (scast s :: 64 word) = sint s"
    by (rule sint_up_scast) (simp add: is_up)
  have q: "sint (scast q :: 64 word) = sint q"
    by (rule sint_up_scast) (simp add: is_up)
  have b: "- (2 ^ 31) \<le> sint s" "sint s < 2 ^ 31"
    using sint_ge [of s] sint_lt [of s] by simp_all
  have m: "sint ((scast s :: 64 word) * 1000) = sint s * 1000"
    using b by (simp add: sint_word_mult s signed_take_bit_int_eq_self)
  show ?thesis
    using b assms by (simp add: sint_word_add m q signed_take_bit_int_eq_self)
qed

lemma long_div_million:
  fixes x :: "32 word"
  assumes "0 \<le> sint x" "sint x < 1000000000"
  shows "sint (long_div x 1000000) = sint x div 1000000"
proof -
  have d: "sint x sdiv 1000000 = sint x div 1000000"
    using assms by (simp add: signed_divide_int_def sgn_if)
  have "0 \<le> sint x div 1000000" "sint x div 1000000 < 1000"
    using assms by simp_all
  then have "signed_take_bit 31 (sint x div 1000000) = sint x div 1000000"
    by (intro signed_take_bit_int_eq_self) simp_all
  then show ?thesis
    by (simp add: long_div_def d signed_of_int)
qed

text \<open>
  With both nanosecond fields normalised and the deadline at or before now by less than
  \<open>2^31 - 1\<close> seconds, \<^verbatim>\<open>total_ms64\<close> is not positive.
\<close>

lemma total_ms64_past:
  assumes na: "0 \<le> sint (tv_nsec a)" "sint (tv_nsec a) < 1000000000"
    and nn: "0 \<le> sint (tv_nsec n)" "sint (tv_nsec n) < 1000000000"
    and range: "- 2147483647 \<le> sint (tv_sec a) - sint (tv_sec n)"
    and past: "sint (tv_sec a) < sint (tv_sec n) \<or>
       (sint (tv_sec a) = sint (tv_sec n) \<and> sint (tv_nsec a) \<le> sint (tv_nsec n))"
  shows "total_ms64 a n \<le>s 0"
proof -
  define D where "D = sint (tv_sec a) - sint (tv_sec n)"
  define N where "N = sint (tv_nsec a) - sint (tv_nsec n)"
  have D: "- 2147483647 \<le> D" "D \<le> 0"
    using range past by (auto simp: D_def)
  have N: "- 1000000000 < N" "N < 1000000000"
    using na nn by (auto simp: N_def)
  have s64: "sint (tv_sec a - tv_sec n) = D"
    unfolding D_def using D by (intro sint_sub64) (simp_all add: D_def)
  have sd0: "sint (ucast (tv_sec a - tv_sec n) :: 32 word) = D"
    using D by (simp add: sint_narrow s64)
  have nd0: "sint (tv_nsec a - tv_nsec n) = N"
    unfolding N_def using N by (intro sint_sub32) (simp_all add: N_def)
  show ?thesis
  proof (cases "N < 0")
    case True
    have neg: "tv_nsec a - tv_nsec n <s 0"
      using True by (simp add: word_sless_alt nd0)
    have nd: "sint (tv_nsec a - tv_nsec n + 1000000000) = N + 1000000000"
      using N True by (subst sint_add32) (simp_all add: nd0)
    have sd: "sint ((ucast (tv_sec a - tv_sec n) :: 32 word) - 1) = D - 1"
      using D by (subst sint_sub32) (simp_all add: sd0)
    have q: "sint (long_div (tv_nsec a - tv_nsec n + 1000000000) 1000000) =
        (N + 1000000000) div 1000000"
      using N True by (subst long_div_million) (simp_all add: nd)
    have qb: "0 \<le> (N + 1000000000) div 1000000" "(N + 1000000000) div 1000000 < 1000"
      using N True by simp_all
    have "sint (total_ms64 a n) = (D - 1) * 1000 + (N + 1000000000) div 1000000"
      using neg qb by (simp add: total_ms64_def Let_def sint_ms64 q sd)
    then show ?thesis
      using D qb by (simp add: word_sle_eq)
  next
    case False
    have nneg: "\<not> tv_nsec a - tv_nsec n <s 0"
      using False by (simp add: word_sless_alt nd0)
    have q: "sint (long_div (tv_nsec a - tv_nsec n) 1000000) = N div 1000000"
      using N False by (subst long_div_million) (simp_all add: nd0)
    have qb: "0 \<le> N div 1000000" "N div 1000000 < 1000"
      using N False by simp_all
    have t: "sint (total_ms64 a n) = D * 1000 + N div 1000000"
      using nneg qb by (simp add: total_ms64_def Let_def sint_ms64 q sd0)
    show ?thesis
    proof (cases "D = 0")
      case True
      with past False have "N = 0" by (auto simp: D_def N_def)
      with True t show ?thesis by (simp add: word_sle_eq)
    next
      case False
      with D have "D \<le> - 1" by simp
      with t qb show ?thesis by (simp add: word_sle_eq)
    qed
  qed
qed

text \<open>
  A deadline with a normalised nanoseconds field that is at or before the time the
  clock reads, by less than \<open>2^31 - 1\<close> seconds, makes \<^verbatim>\<open>xpthread_mutex_timedlock\<close> return
  \<^verbatim>\<open>ETIMEDOUT\<close> without any \<^verbatim>\<open>TryEnterCriticalSection\<close> attempt and with the mutex unchanged.
\<close>

theorem timedlock_past_deadline_in_range:
  assumes "0 \<le> sint (tv_nsec a)" "sint (tv_nsec a) < 1000000000"
    and "- 2147483647 \<le> sint (tv_sec a) - sint (tv_sec (xpthread_get_realtime clock))"
    and "sint (tv_sec a) < sint (tv_sec (xpthread_get_realtime clock)) \<or>
       (sint (tv_sec a) = sint (tv_sec (xpthread_get_realtime clock)) \<and>
        sint (tv_nsec a) \<le> sint (tv_nsec (xpthread_get_realtime clock)))"
  shows "xpthread_mutex_timedlock g clock others self m (Some a) =
     \<lparr>status = ETIMEDOUT, mutex_after = m, attempts = 0, elapsed_ms = 0\<rparr>"
proof -
  define n where "n = tv_nsec (xpthread_get_realtime clock)"
  have b: "uint n < 1000000000"
    unfolding n_def by (rule realtime_nsec_uint)
  then have "sint n = uint n"
    by (intro sint_small_long) simp
  with b have "0 \<le> sint n" "sint n < 1000000000" by simp_all
  then have "total_ms64 a (xpthread_get_realtime clock) \<le>s 0"
    using assms by (intro total_ms64_past) (simp_all add: n_def)
  then show ?thesis
    by (simp add: xpthread_mutex_timedlock_def)
qed

text \<open>The deadline one second before the clock's reading, and the deadline equal to it.\<close>

theorem timedlock_past_deadline_in_range_witness:
  "xpthread_mutex_timedlock 5 clock_2026 idle 1 unlocked
       (Some \<lparr>tv_sec = 1793318399, tv_nsec = 0\<rparr>) =
     \<lparr>status = ETIMEDOUT, mutex_after = unlocked, attempts = 0, elapsed_ms = 0\<rparr> \<and>
   xpthread_mutex_timedlock 5 clock_2026 idle 1 unlocked
       (Some \<lparr>tv_sec = 1793318400, tv_nsec = 0\<rparr>) =
     \<lparr>status = ETIMEDOUT, mutex_after = unlocked, attempts = 0, elapsed_ms = 0\<rparr>"
  using timedlock_past_deadline_in_range [of "\<lparr>tv_sec = 1793318399, tv_nsec = 0\<rparr>" clock_2026
      5 idle 1 unlocked]
    timedlock_past_deadline_in_range [of "\<lparr>tv_sec = 1793318400, tv_nsec = 0\<rparr>" clock_2026
      5 idle 1 unlocked]
  by (simp add: now_2026)

text \<open>
  C8 (the code at a failing input). Null \<^verbatim>\<open>abstime\<close>, another thread holds the mutex
  throughout. \<^verbatim>\<open>timeout_ms\<close> is \<^verbatim>\<open>INFINITE\<close>, which the loop compares as the number
  \<open>2^32 - 1\<close>: after that many sleeps and one more attempt the call returns \<^verbatim>\<open>ETIMEDOUT\<close>.
  Neither the clock nor the indeterminate value is read.
\<close>

theorem timedlock_null_abstime_times_out:
  "xpthread_mutex_timedlock indeterminate clock idle 1 held_by_other None =
     \<lparr>status = ETIMEDOUT, mutex_after = held_by_other, attempts = 4294967296,
      elapsed_ms = 0xFFFFFFFF\<rparr>"
proof -
  have "timedlock_poll idle 1 INFINITE held_by_other =
     \<lparr>status = ETIMEDOUT, mutex_after = held_by_other, attempts = unat INFINITE + 1,
      elapsed_ms = INFINITE\<rparr>"
    by (rule timedlock_poll_busy [where t = 2]) (simp_all add: held_by_other_def idle_def)
  then show ?thesis
    by (simp add: xpthread_mutex_timedlock_def INFINITE_def)
qed

section \<open>Properties of try-lock\<close>

text \<open>
  On a mutex that another thread holds (once), \<^verbatim>\<open>xpthread_mutex_trylock\<close> returns
  \<^verbatim>\<open>EBUSY\<close> and leaves the mutex as it is; once the holder has unlocked it, the same call
  returns \<open>0\<close> and the caller owns the mutex.
\<close>

theorem trylock_busy_then_free:
  assumes "OwningThread m = Some t" "t \<noteq> self" "RecursionCount m = 1"
  shows "xpthread_mutex_trylock self m = (EBUSY, m) \<and>
         xpthread_mutex_trylock self (snd (xpthread_mutex_unlock t m)) =
           (0, \<lparr>OwningThread = Some self, RecursionCount = 1\<rparr>)"
  using assms
  by (simp add: xpthread_mutex_trylock_def TryEnterCriticalSection_def xpthread_mutex_unlock_def
      LeaveCriticalSection_def)

theorem trylock_busy_then_free_witness:
  "xpthread_mutex_trylock 1 held_by_other = (EBUSY, held_by_other) \<and>
   xpthread_mutex_trylock 1 (snd (xpthread_mutex_unlock 2 held_by_other)) =
     (0, \<lparr>OwningThread = Some 1, RecursionCount = 1\<rparr>)"
  using trylock_busy_then_free [of held_by_other 2 1]
  by (simp add: held_by_other_def)

section \<open>Properties of the priority-ceiling and robustness calls\<close>

text \<open>
  C6 (the code at a failing input). \<^verbatim>\<open>xpthread_mutex_getprioceiling\<close> called with a null
  out-pointer returns \<^verbatim>\<open>EINVAL\<close>, which is not success, whereas its sibling
  \<^verbatim>\<open>xpthread_mutex_setprioceiling\<close> called with a null out-pointer returns \<open>0\<close>.
\<close>

theorem getprioceiling_null_returns_EINVAL:
  "xpthread_mutex_getprioceiling unlocked None = (EINVAL, None, unlocked) \<and> EINVAL \<noteq> 0 \<and>
   xpthread_mutex_setprioceiling unlocked 0 None = (0, None, unlocked)"
  by (simp add: xpthread_mutex_getprioceiling_def xpthread_mutex_setprioceiling_def EINVAL_def)

text \<open>
  Everywhere else the three calls succeed, report a ceiling of zero through a non-null
  out-pointer and leave the mutex as it is.
\<close>

lemma prioceiling_calls_succeed:
  "xpthread_mutex_getprioceiling m (Some c) = (0, Some 0, m) \<and>
   xpthread_mutex_setprioceiling m ceiling (Some old) = (0, Some 0, m) \<and>
   xpthread_mutex_setprioceiling m ceiling None = (0, None, m) \<and>
   xpthread_mutex_consistent m = (0, m)"
  by (simp add: xpthread_mutex_getprioceiling_def xpthread_mutex_setprioceiling_def
      xpthread_mutex_consistent_def)

section \<open>Properties of the once-initializer\<close>

text \<open>
  C9 (as stated, refuted). On a control that is already done, \<^verbatim>\<open>xpthread_once\<close> with a null
  initializer returns \<open>0\<close>: \<^verbatim>\<open>once_wrapper\<close> is not called, so nothing rejects the null pointer.
\<close>

theorem once_null_on_done_counterexample:
  "xpthread_once Once_done None (0 :: nat) = Some (0, Once_done, 0)"
  by (simp add: xpthread_once_def InitOnceExecuteOnce_def)

text \<open>
  C9 (amended). On a control not yet initialised, \<^verbatim>\<open>xpthread_once\<close> with a null initializer
  returns \<open>-1\<close>, runs nothing and leaves the control uninitialised, and with a non-null
  initializer runs it once, marks the control done and returns \<open>0\<close>. On a control that is
  done it returns \<open>0\<close> and runs nothing, whatever the initializer. While another thread is
  initialising it does not return.
\<close>

theorem once_results:
  "xpthread_once Once_uninitialized None w = Some (- 1, Once_uninitialized, w) \<and>
   xpthread_once Once_uninitialized (Some f) w = Some (0, Once_done, f w) \<and>
   xpthread_once Once_done init_routine w = Some (0, Once_done, w) \<and>
   xpthread_once Once_in_progress init_routine w = None"
  by (simp add: xpthread_once_def InitOnceExecuteOnce_def once_wrapper_def)

lemma once_calls_done:
  "once_calls n Once_done init_routine w = Some (replicate n 0, Once_done, w)"
  by (induction n) (simp_all add: xpthread_once_def InitOnceExecuteOnce_def)

text \<open>
  Any positive number of calls in a row on a fresh control with the same non-null
  initializer: every call returns \<open>0\<close>, the control ends done, and the initializer has run
  exactly once.
\<close>

theorem once_runs_exactly_once:
  "once_calls (Suc n) Once_uninitialized (Some f) w =
     Some (replicate (Suc n) 0, Once_done, f w)"
  by (simp add: once_calls_done xpthread_once_def InitOnceExecuteOnce_def once_wrapper_def)

section \<open>Properties of cancellation\<close>

text \<open>
  C10. \<^verbatim>\<open>xpthread_cancel\<close> returns \<^verbatim>\<open>EINVAL\<close> (which is not \<open>0\<close>) for the null handle and \<open>0\<close> for
  any other; it always returns, and the process is as before.
\<close>

theorem cancel_status:
  "xpthread_cancel h p = ((if h = 0 then EINVAL else 0), p) \<and> EINVAL \<noteq> 0"
  by (simp add: xpthread_cancel_def EINVAL_def)

lemma testcancel_by_flag:
  "xpthread_testcancel self p = (if pending_request p self then endthreadex self 0 p else p)"
  by (simp add: xpthread_testcancel_def pending_request_def split: option.splits)

lemma ended_endthreadex:
  "threads p self = Some t \<Longrightarrow> ended (endthreadex self code p) self"
  by (simp add: ended_def endthreadex_def)

lemma pending_setcancelstate:
  "pending_request (snd (snd (xpthread_setcancelstate self st old p))) self =
   pending_request p self"
  by (simp add: pending_request_def xpthread_setcancelstate_def split: option.splits)

text \<open>
  C3 (as stated, refuted). The created thread has started and is about to call
  \<^verbatim>\<open>xpthread_testcancel\<close>, with cancellation enabled. The main thread calls
  \<^verbatim>\<open>xpthread_cancel\<close> on its handle: the call returns \<open>0\<close> but the pending-request flag is not
  set, and the thread's \<^verbatim>\<open>xpthread_testcancel\<close> does not end it: it goes on to \<^verbatim>\<open>return\<close>.
\<close>

theorem cancel_sets_no_flag_counterexample:
  "fst (xpthread_cancel 2 (steps 1 2 (spawn testcancel_routine))) = 0 \<and>
   \<not> pending_request (snd (xpthread_cancel 2 (steps 1 2 (spawn testcancel_routine)))) 2 \<and>
   cancel_enabled (snd (xpthread_cancel 2 (steps 1 2 (spawn testcancel_routine)))) 2 \<and>
   map_option activity
     (threads (step 2 (snd (xpthread_cancel 2 (steps 1 2 (spawn testcancel_routine))))) 2) =
     Some (Running (Return 7))"
  by code_simp

subsection \<open>No operation sets the flag\<close>

lemma heap_endthreadex: "ctx_heap (endthreadex self code p) = ctx_heap p"
  by (simp add: endthreadex_def split: option.splits)

lemma heap_CloseHandle: "ctx_heap (snd (CloseHandle h p)) = ctx_heap p"
  by (simp add: CloseHandle_def split: option.splits)

lemma heap_exit: "ctx_heap (xpthread_exit self v p) = ctx_heap p"
  by (simp add: xpthread_exit_def heap_endthreadex Let_def)

lemma heap_testcancel: "ctx_heap (xpthread_testcancel self p) = ctx_heap p"
  by (simp add: xpthread_testcancel_def heap_endthreadex split: option.splits)

lemma heap_setcancelstate:
  "ctx_heap (snd (snd (xpthread_setcancelstate self st old p))) = ctx_heap p"
  by (simp add: xpthread_setcancelstate_def split: option.splits)

lemma heap_setcanceltype:
  "ctx_heap (snd (snd (xpthread_setcanceltype self ty old p))) = ctx_heap p"
  by (simp add: xpthread_setcanceltype_def split: option.splits)

lemma heap_cancel: "ctx_heap (snd (xpthread_cancel h p)) = ctx_heap p"
  by (simp add: xpthread_cancel_def)

lemma heap_detach: "ctx_heap (snd (xpthread_detach h p)) = ctx_heap p"
  using heap_CloseHandle [of h p] by (cases "CloseHandle h p") (simp add: xpthread_detach_def)

lemma heap_join:
  "xpthread_join self h rp p = Some (st, cell, p') \<Longrightarrow> ctx_heap p' = ctx_heap p"
  by (auto simp add: xpthread_join_def Let_def heap_CloseHandle split: option.splits)

lemma heap_perform: "ctx_heap (perform self c p) = ctx_heap p"
  by (cases c)
    (simp_all add: heap_exit heap_testcancel heap_setcancelstate heap_setcanceltype heap_cancel)

lemma heap_continue_with: "ctx_heap (continue_with self rest p) = ctx_heap p"
  by (simp add: continue_with_def split: option.splits activity.splits)

lemma heap_thread_wrapper_enter: "ctx_heap (thread_wrapper_enter h ctx p) = ctx_heap p"
  by (simp add: thread_wrapper_enter_def split: option.splits)

lemma flags_clear_heap: "ctx_heap p' = ctx_heap p \<Longrightarrow> flags_clear p \<Longrightarrow> flags_clear p'"
  by (simp add: flags_clear_def)

lemma flags_clear_create:
  "flags_clear p \<Longrightarrow>
   flags_clear (snd (snd (xpthread_create calloc_ok beginthread_ok routine argument p)))"
  by (auto simp add: flags_clear_def xpthread_create_def Let_def split: option.splits)

lemma flags_clear_thread_wrapper_leave:
  "flags_clear p \<Longrightarrow> flags_clear (thread_wrapper_leave h ret p)"
  by (auto simp add: flags_clear_def thread_wrapper_leave_def heap_endthreadex
      split: option.splits dest: spec)

lemma flags_clear_step: "flags_clear p \<Longrightarrow> flags_clear (step h p)"
proof -
  assume c: "flags_clear p"
  show ?thesis
  proof (cases "threads p h")
    case None
    with c show ?thesis by (simp add: step_def)
  next
    case (Some t)
    show ?thesis
    proof (cases "activity t")
      case (Starting ctx)
      with Some c show ?thesis
        by (simp add: step_def flags_clear_heap [OF heap_thread_wrapper_enter])
    next
      case (Running k)
      show ?thesis
      proof (cases k)
        case (Return ret)
        with Some Running c show ?thesis
          by (simp add: step_def flags_clear_thread_wrapper_leave)
      next
        case (Do call rest)
        have "ctx_heap (continue_with h rest (perform h call p)) = ctx_heap p"
          by (simp add: heap_continue_with heap_perform)
        with Some Running Do c show ?thesis
          by (simp add: step_def flags_clear_heap)
      qed
    next
      case (Ended code)
      with Some c show ?thesis by (simp add: step_def)
    next
      case Main_program
      with Some c show ?thesis by (simp add: step_def)
    qed
  qed
qed

lemma reachable_flags_clear: "reachable p \<Longrightarrow> flags_clear p"
proof (induction rule: reachable.induct)
  case reach_boot
  show ?case by (simp add: flags_clear_def boot_def)
next
  case (reach_create p calloc_ok beginthread_ok routine argument)
  then show ?case by (simp add: flags_clear_create)
next
  case (reach_step p h)
  then show ?case by (simp add: flags_clear_step)
next
  case (reach_join p self h rp st cell p')
  then show ?case using heap_join flags_clear_heap by blast
next
  case (reach_detach p h)
  then show ?case using heap_detach flags_clear_heap by blast
next
  case (reach_cancel p h)
  then show ?case using heap_cancel flags_clear_heap by blast
next
  case (reach_setcancelstate p self st old)
  then show ?case using heap_setcancelstate flags_clear_heap by blast
next
  case (reach_setcanceltype p self ty old)
  then show ?case using heap_setcanceltype flags_clear_heap by blast
next
  case (reach_testcancel p self)
  then show ?case using heap_testcancel flags_clear_heap by blast
next
  case (reach_exit p self v)
  then show ?case using heap_exit flags_clear_heap by blast
qed

lemma flags_clear_not_pending: "flags_clear p \<Longrightarrow> \<not> pending_request p h"
  by (auto simp add: flags_clear_def pending_request_def split: option.splits dest: spec)

text \<open>
  In every process the layer can produce, no thread has a pending request, and
  \<^verbatim>\<open>xpthread_testcancel\<close> leaves the process as it is.
\<close>

lemma testcancel_noop_reachable:
  assumes "reachable p"
  shows "\<not> pending_request p h \<and> xpthread_testcancel h p = p"
  using assms reachable_flags_clear [of p] flags_clear_not_pending [of p h]
  by (simp add: testcancel_by_flag)

text \<open>
  C3 (amended). \<^verbatim>\<open>xpthread_cancel\<close> does not set the target's pending-request flag: the flag
  is after the call what it was before, and in a process the layer can produce that is
  clear. The rest holds in every such process as stated, for a running thread:
  \<^verbatim>\<open>xpthread_testcancel\<close> ends the calling thread if and only if its cancellation state is
  enabled and its pending-request flag is set; with the state disabled it is a no-op; the
  flag is left as it is by \<^verbatim>\<open>xpthread_setcancelstate\<close>, so that after disabling and
  re-enabling \<^verbatim>\<open>xpthread_testcancel\<close> ends the thread if and only if the flag is set. As no
  flag is ever set, \<^verbatim>\<open>xpthread_testcancel\<close> is a no-op throughout.
\<close>

theorem cancel_leaves_flag_testcancel_checks:
  assumes "reachable p" "threads p self = Some t" "activity t = Running c"
  shows "pending_request (snd (xpthread_cancel th p)) h = pending_request p h \<and>
         \<not> pending_request (snd (xpthread_cancel th p)) h \<and>
         (ended (xpthread_testcancel self p) self \<longleftrightarrow>
            cancel_enabled p self \<and> pending_request p self) \<and>
         (\<not> cancel_enabled p self \<longrightarrow> xpthread_testcancel self p = p) \<and>
         pending_request (snd (snd (xpthread_setcancelstate self st old p))) self =
            pending_request p self \<and>
         (ended (xpthread_testcancel self
              (snd (snd (xpthread_setcancelstate self XPTHREAD_CANCEL_ENABLE old'
                 (snd (snd (xpthread_setcancelstate self XPTHREAD_CANCEL_DISABLE old p)))))))
            self \<longleftrightarrow> pending_request p self) \<and>
         xpthread_testcancel self p = p"
proof -
  have np: "\<not> pending_request p k" for k
    using assms(1) by (simp add: reachable_flags_clear flags_clear_not_pending)
  have c: "snd (xpthread_cancel th p) = p"
    by (simp add: xpthread_cancel_def)
  have tc: "xpthread_testcancel self p = p"
    using np by (simp add: testcancel_by_flag)
  have ne: "\<not> ended p self"
    using assms(2,3) by (simp add: ended_def)
  let ?q = "snd (snd (xpthread_setcancelstate self XPTHREAD_CANCEL_ENABLE old'
                 (snd (snd (xpthread_setcancelstate self XPTHREAD_CANCEL_DISABLE old p)))))"
  have rq: "reachable ?q"
    using assms(1) by (intro reach_setcancelstate)
  have tq: "xpthread_testcancel self ?q = ?q"
    using rq by (simp add: reachable_flags_clear flags_clear_not_pending testcancel_by_flag)
  have aq: "threads ?q self = Some (t\<lparr>cancel_state := XPTHREAD_CANCEL_ENABLE\<rparr>)"
    using assms(2) by (simp add: xpthread_setcancelstate_def)
  have neq: "\<not> ended ?q self"
    using aq assms(3) by (simp add: ended_def)
  show ?thesis
    using np c tc ne tq neq by (simp add: pending_setcancelstate)
qed

text \<open>
  Two instances, both reached through the layer: the created thread has started, the main
  thread has called \<^verbatim>\<open>xpthread_cancel\<close> on it, and the thread is about to call
  \<^verbatim>\<open>xpthread_testcancel\<close>, once with cancellation enabled (as a thread starts) and once
  after it has disabled cancellation.
\<close>

theorem cancel_leaves_flag_testcancel_checks_witness:
  "cancel_enabled (snd (xpthread_cancel 2 (step 2 (spawn testcancel_routine)))) 2 \<and>
   \<not> pending_request (snd (xpthread_cancel 2 (step 2 (spawn testcancel_routine)))) 2 \<and>
   \<not> ended (xpthread_testcancel 2
              (snd (xpthread_cancel 2 (step 2 (spawn testcancel_routine))))) 2 \<and>
   \<not> cancel_enabled
       (snd (snd (xpthread_setcancelstate 2 XPTHREAD_CANCEL_DISABLE None
          (snd (xpthread_cancel 2 (step 2 (spawn testcancel_routine))))))) 2 \<and>
   xpthread_testcancel 2
       (snd (snd (xpthread_setcancelstate 2 XPTHREAD_CANCEL_DISABLE None
          (snd (xpthread_cancel 2 (step 2 (spawn testcancel_routine))))))) =
     snd (snd (xpthread_setcancelstate 2 XPTHREAD_CANCEL_DISABLE None
          (snd (xpthread_cancel 2 (step 2 (spawn testcancel_routine))))))"
proof -
  let ?c = "Do Call_testcancel (Return 7)"
  let ?p = "snd (xpthread_cancel 2 (step 2 (spawn testcancel_routine)))"
  let ?q = "snd (snd (xpthread_setcancelstate 2 XPTHREAD_CANCEL_DISABLE None ?p))"
  have "reachable (spawn testcancel_routine)"
    unfolding spawn_def by (rule reach_create) (rule reach_boot)
  then have "reachable (step 2 (spawn testcancel_routine))"
    by (rule reach_step)
  then have rp: "reachable ?p"
    by (rule reach_cancel)
  then have rq: "reachable ?q"
    by (rule reach_setcancelstate)
  have tp: "threads ?p 2 = Some (worker_thread ?c)"
    by code_simp
  have ap: "activity (worker_thread ?c) = Running ?c"
    by (simp add: worker_thread_def)
  have tq: "threads ?q 2 = Some ((worker_thread ?c)\<lparr>cancel_state := XPTHREAD_CANCEL_DISABLE\<rparr>)"
    by code_simp
  have aq: "activity ((worker_thread ?c)\<lparr>cancel_state := XPTHREAD_CANCEL_DISABLE\<rparr>) = Running ?c"
    by (simp add: worker_thread_def)
  have ep: "cancel_enabled ?p 2"
    by code_simp
  have dq: "\<not> cancel_enabled ?q 2"
    by code_simp
  have i1: "\<not> pending_request ?p 2 \<and> \<not> ended (xpthread_testcancel 2 ?p) 2"
    using cancel_leaves_flag_testcancel_checks [OF rp tp ap, of 2 2 XPTHREAD_CANCEL_DISABLE None None]
    by blast
  have i2: "xpthread_testcancel 2 ?q = ?q"
    using cancel_leaves_flag_testcancel_checks [OF rq tq aq, of 2 2 XPTHREAD_CANCEL_DISABLE None None] dq
    by blast
  show ?thesis
    using ep dq i1 i2 by blast
qed

section \<open>Properties of exit and join\<close>

lemma step_exit:
  assumes "threads p h = Some th" "activity th = Running (Do (Call_exit v) rest)"
  shows "step h p = p\<lparr>threads := (threads p)(h := Some (th\<lparr>activity := Ended (ucast v)\<rparr>))\<rparr>"
  using assms
  by (simp add: step_def xpthread_exit_def endthreadex_def continue_with_def Let_def)

lemma step_return:
  assumes "threads p h = Some th" "activity th = Running (Return v)"
    "ctx_heap p (xpthread_self_ctx th) = Some c"
  shows "step h p =
     p\<lparr>ctx_heap := (ctx_heap p)(xpthread_self_ctx th := Some (c\<lparr>retval := v\<rparr>)),
       threads := (threads p)(h := Some (th\<lparr>activity := Ended 0\<rparr>))\<rparr>"
  using assms
  by (simp add: step_def thread_wrapper_leave_def endthreadex_def)

lemma join_ended:
  assumes "threads p joiner = Some tj" "threads p h = Some th" "handle_open th"
    "activity th = Ended code"
  shows "xpthread_join joiner h retval_p p =
     Some (0,
       (case retval_p of
          None \<Rightarrow> None
        | Some old \<Rightarrow>
            if xpthread_self_ctx tj \<noteq> 0
            then (case ctx_heap p (xpthread_self_ctx tj) of
                    None \<Rightarrow> Some old
                  | Some c \<Rightarrow> Some (retval c))
            else Some old),
       snd (CloseHandle h p))"
  using assms
  by (simp add: xpthread_join_def WaitForSingleObject_def CloseHandle_def Let_def)

text \<open>
  C1 (the code at a failing input). The main thread creates a thread whose entry function
  calls \<^verbatim>\<open>xpthread_exit(42)\<close>; the thread starts and makes the call, which ends it with exit
  code 42 and leaves \<^verbatim>\<open>retval\<close> of its record at \<open>0\<close>. The main thread then joins it with
  \<^verbatim>\<open>retval\<close> pointing to a cell that holds 57005: the join returns \<open>0\<close> and the cell still
  holds 57005, neither 42 nor \<^verbatim>\<open>NULL\<close>. The same join after an entry function that returns
  42 finds 42 stored in the target's record and leaves the cell at 57005 as well. When the
  joiner is itself a created thread (handle \<open>2\<close>, joining handle \<open>3\<close> whose entry function has
  returned 42), the cell receives \<^verbatim>\<open>retval\<close> of the joiner's own record, \<open>0\<close>, while the
  target's record holds 42.
\<close>

theorem join_does_not_deliver_value:
  "fst (xpthread_create True True (exit_routine 42) 0 boot) = 0 \<and>
   fst (snd (xpthread_create True True (exit_routine 42) 0 boot)) = Some 2 \<and>
   map_option activity (threads (steps 2 2 (spawn (exit_routine 42))) 2) = Some (Ended 42) \<and>
   map_option retval (ctx_heap (steps 2 2 (spawn (exit_routine 42))) 1) = Some 0 \<and>
   map_option (\<lambda>r. (fst r, fst (snd r)))
     (xpthread_join 1 2 (Some 57005) (steps 2 2 (spawn (exit_routine 42)))) =
     Some (0, Some 57005) \<and>
   map_option retval (ctx_heap (steps 2 2 (spawn (return_routine 42))) 1) = Some 42 \<and>
   map_option (\<lambda>r. (fst r, fst (snd r)))
     (xpthread_join 1 2 (Some 57005) (steps 2 2 (spawn (return_routine 42)))) =
     Some (0, Some 57005) \<and>
   map_option retval
     (ctx_heap (steps 2 3 (step 2 (spawn_two testcancel_routine (return_routine 42)))) 2) =
     Some 42 \<and>
   map_option (\<lambda>r. (fst r, fst (snd r)))
     (xpthread_join 2 3 (Some 57005)
        (steps 2 3 (step 2 (spawn_two testcancel_routine (return_routine 42))))) =
     Some (0, Some 0)"
  by code_simp

text \<open>
  The same for every value and every content of the cell, when the joining thread has no
  context record of its own: the step that ends the target (by \<^verbatim>\<open>xpthread_exit(v)\<close> or by
  returning \<open>v\<close>) is followed by a join that returns \<open>0\<close> and does not write the cell.
\<close>

lemma join_leaves_retval_cell:
  assumes "threads p joiner = Some tj" "xpthread_self_ctx tj = 0"
    and "threads p h = Some th" "handle_open th" "joiner \<noteq> h"
    and "activity th = Running (Do (Call_exit v) rest) \<or>
         (activity th = Running (Return v) \<and> ctx_heap p (xpthread_self_ctx th) \<noteq> None)"
  shows "xpthread_join joiner h (Some old) (step h p) =
           Some (0, Some old, snd (CloseHandle h (step h p))) \<and>
         (activity th = Running (Do (Call_exit v) rest) \<longrightarrow>
            ctx_heap (step h p) = ctx_heap p \<and>
            map_option activity (threads (step h p) h) = Some (Ended (ucast v))) \<and>
         (activity th = Running (Return v) \<longrightarrow>
            map_option retval (ctx_heap (step h p) (xpthread_self_ctx th)) = Some v \<and>
            map_option activity (threads (step h p) h) = Some (Ended 0))"
proof (cases "activity th = Running (Do (Call_exit v) rest)")
  case True
  have s: "step h p = p\<lparr>threads := (threads p)(h := Some (th\<lparr>activity := Ended (ucast v)\<rparr>))\<rparr>"
    using assms(3) True by (rule step_exit)
  have "xpthread_join joiner h (Some old) (step h p) =
      Some (0, Some old, snd (CloseHandle h (step h p)))"
    using assms(1,2,4,5)
    by (subst join_ended [where tj = tj and th = "th\<lparr>activity := Ended (ucast v)\<rparr>"
          and code = "ucast v"]) (simp_all add: s)
  then show ?thesis using True s by simp
next
  case False
  with assms(6) obtain c where r: "activity th = Running (Return v)"
    and c: "ctx_heap p (xpthread_self_ctx th) = Some c" by auto
  have s: "step h p =
      p\<lparr>ctx_heap := (ctx_heap p)(xpthread_self_ctx th := Some (c\<lparr>retval := v\<rparr>)),
        threads := (threads p)(h := Some (th\<lparr>activity := Ended 0\<rparr>))\<rparr>"
    using assms(3) r c by (rule step_return)
  have "xpthread_join joiner h (Some old) (step h p) =
      Some (0, Some old, snd (CloseHandle h (step h p)))"
    using assms(1,2,4,5)
    by (subst join_ended [where tj = tj and th = "th\<lparr>activity := Ended 0\<rparr>" and code = 0])
      (simp_all add: s)
  then show ?thesis using False r s by simp
qed

section \<open>The status values returned\<close>

lemma timedlock_poll_status:
  "status (timedlock_poll others self timeout_ms m) \<in> {0, ETIMEDOUT}"
proof (cases "timedlock_loop others self timeout_ms 0 m 0")
  case (fields acquired m' tries elapsed)
  then show ?thesis
    by (cases "TryEnterCriticalSection self m'") (simp add: timedlock_poll_def)
qed

lemma timedlock_status:
  "status (xpthread_mutex_timedlock g clock others self m abstime) \<in> {0, ETIMEDOUT}"
  using timedlock_poll_status [of others self g m]
    timedlock_poll_status [of others self INFINITE m]
  by (simp add: xpthread_mutex_timedlock_def split: option.splits)

lemma once_status:
  "(case xpthread_once c i w of None \<Rightarrow> True | Some r \<Rightarrow> fst r \<in> {0, - 1})"
  by (cases c; cases i) (simp_all add: xpthread_once_def InitOnceExecuteOnce_def once_wrapper_def)

lemma join_status:
  "(case xpthread_join self h rp p of None \<Rightarrow> True | Some r \<Rightarrow> fst r = 0)"
  by (simp add: xpthread_join_def Let_def split: option.splits)

lemma lock_status:
  "(case xpthread_mutex_lock self m of None \<Rightarrow> True | Some r \<Rightarrow> fst r = 0)"
  by (auto simp add: xpthread_mutex_lock_def split: option.splits)

lemma create_status:
  "fst (xpthread_create a b r g p) \<in> {0, ENOMEM, EAGAIN}"
  by (simp add: xpthread_create_def Let_def)

lemma detach_status:
  "fst (xpthread_detach h p) \<in> {0, - 1}"
  by (cases "CloseHandle h p") (simp add: xpthread_detach_def)

lemma trylock_status:
  "fst (xpthread_mutex_trylock self m) \<in> {0, EBUSY}"
  by (cases "TryEnterCriticalSection self m") (simp add: xpthread_mutex_trylock_def)

text \<open>
  C5 (as stated, refuted). \<^verbatim>\<open>xpthread_once\<close> with a null initializer on a fresh control and
  \<^verbatim>\<open>xpthread_detach\<close> of the null handle both return \<open>-1\<close>, which is none of the values of
  the closed set.
\<close>

theorem status_outside_closed_set_counterexample:
  "xpthread_once Once_uninitialized None (0 :: nat) = Some (- 1, Once_uninitialized, 0) \<and>
   fst (xpthread_detach 0 boot) = - 1 \<and>
   - 1 \<notin> spec_status_set"
  by (simp add: xpthread_once_def InitOnceExecuteOnce_def once_wrapper_def xpthread_detach_def
      CloseHandle_def boot_def spec_status_set_def ETIMEDOUT_def EBUSY_def EINVAL_def ENOMEM_def
      EAGAIN_def ENOTSUP_def ENOSYS_def)

text \<open>
  C5 (amended). Whenever a status-returning operation returns, its status is \<open>0\<close>, one of
  \<^verbatim>\<open>ETIMEDOUT\<close>, \<^verbatim>\<open>EBUSY\<close>, \<^verbatim>\<open>EINVAL\<close>, \<^verbatim>\<open>ENOMEM\<close>, \<^verbatim>\<open>EAGAIN\<close>, or \<open>-1\<close>; the value \<open>-1\<close> comes from
  \<^verbatim>\<open>xpthread_once\<close> and \<^verbatim>\<open>xpthread_detach\<close> only. Operation by operation: once and detach
  return \<open>0\<close> or \<open>-1\<close>; create \<open>0\<close>, \<^verbatim>\<open>ENOMEM\<close> or \<^verbatim>\<open>EAGAIN\<close>; cancel and getprioceiling \<open>0\<close> or
  \<^verbatim>\<open>EINVAL\<close>; mutex_init \<open>0\<close> or \<^verbatim>\<open>ENOMEM\<close>; trylock \<open>0\<close> or \<^verbatim>\<open>EBUSY\<close>; timedlock \<open>0\<close> or
  \<^verbatim>\<open>ETIMEDOUT\<close>; every other one \<open>0\<close>. (Once, join and lock may wait; the statement is about
  the calls that return.)
\<close>

theorem status_values_returned:
  "(case xpthread_once c i w of None \<Rightarrow> True | Some r \<Rightarrow> fst r \<in> {0, - 1}) \<and>
   fst (xpthread_create calloc_ok beginthread_ok routine argument p) \<in> {0, ENOMEM, EAGAIN} \<and>
   (case xpthread_join self h rp p of None \<Rightarrow> True | Some r \<Rightarrow> fst r = 0) \<and>
   fst (xpthread_detach h p) \<in> {0, - 1} \<and>
   fst (xpthread_setcancelstate self st old p) = 0 \<and>
   fst (xpthread_setcanceltype self ty old p) = 0 \<and>
   fst (xpthread_cancel h p) \<in> {0, EINVAL} \<and>
   fst (xpthread_mutex_init native_ok m) \<in> {0, ENOMEM} \<and>
   xpthread_mutex_destroy m = 0 \<and>
   (case xpthread_mutex_lock self m of None \<Rightarrow> True | Some r \<Rightarrow> fst r = 0) \<and>
   fst (xpthread_mutex_unlock self m) = 0 \<and>
   fst (xpthread_mutex_trylock self m) \<in> {0, EBUSY} \<and>
   status (xpthread_mutex_timedlock g clock others self m abstime) \<in> {0, ETIMEDOUT} \<and>
   fst (xpthread_mutex_getprioceiling m pc) \<in> {0, EINVAL} \<and>
   fst (xpthread_mutex_setprioceiling m ceiling oc) = 0 \<and>
   fst (xpthread_mutex_consistent m) = 0"
proof -
  have 1: "fst (xpthread_setcancelstate self st old p) = 0"
    by (simp add: xpthread_setcancelstate_def split: option.splits)
  have 2: "fst (xpthread_setcanceltype self ty old p) = 0"
    by (simp add: xpthread_setcanceltype_def split: option.splits)
  have 3: "fst (xpthread_cancel h p) \<in> {0, EINVAL}"
    by (simp add: xpthread_cancel_def)
  have 4: "fst (xpthread_mutex_init native_ok m) \<in> {0, ENOMEM}"
    by (simp add: xpthread_mutex_init_def)
  have 5: "fst (xpthread_mutex_getprioceiling m pc) \<in> {0, EINVAL}"
    by (simp add: xpthread_mutex_getprioceiling_def split: option.splits)
  show ?thesis
    using once_status [of c i w] create_status [of calloc_ok beginthread_ok routine argument p]
      join_status [of self h rp p] detach_status [of h p] lock_status [of self m]
      trylock_status [of self m] timedlock_status [of g clock others self m abstime] 1 2 3 4 5
    by (simp add: xpthread_mutex_destroy_def xpthread_mutex_unlock_def
        xpthread_mutex_setprioceiling_def xpthread_mutex_consistent_def)
qed

text \<open>
  An instance in which the three operations that may wait do return: once on a fresh
  control, join of an ended thread, lock of a free mutex.
\<close>

theorem status_values_returned_witness:
  "map_option fst (xpthread_once Once_uninitialized (Some Suc) 0) = Some 0 \<and>
   map_option fst (xpthread_join 1 2 None (steps 2 2 (spawn (exit_routine 42)))) = Some 0 \<and>
   map_option fst (xpthread_mutex_lock 1 unlocked) = Some 0"
proof -
  have a: "xpthread_once Once_uninitialized (Some Suc) 0 = Some (0, Once_done, Suc 0)"
    by (simp add: xpthread_once_def InitOnceExecuteOnce_def once_wrapper_def)
  have b: "xpthread_join 1 2 None (steps 2 2 (spawn (exit_routine 42))) \<noteq> None"
    by code_simp
  have c: "xpthread_mutex_lock 1 unlocked \<noteq> None"
    by code_simp
  show ?thesis
    using status_values_returned [where c = Once_uninitialized and i = "Some Suc" and w = 0
        and self = 1 and h = 2 and rp = None and p = "steps 2 2 (spawn (exit_routine 42))"
        and m = unlocked] a b c
    by (auto split: option.splits)
qed

end
